theory Spec2Isabelle
  imports Main
begin

section \<open>Configuration values\<close>

text \<open>
  A configuration is the Python value a YAML or JSON document loads to: a dictionary with
  string keys whose values are scalars, lists and further dictionaries. Dictionaries keep
  their insertion order, so they are association lists; \<open>map_of\<close> is the lookup.
  Floating-point leaves are left out of the value type.
\<close>

datatype json =
    JNone
  | JBool bool
  | JInt int
  | JStr string
  | JList "json list"
  | JDict "(string \<times> json) list"

type_synonym dict = "(string \<times> json) list"

text \<open>The dictionary \<^verbatim>\<open>metrics_names\<close>: its keys are whatever the features carry as names.\<close>

type_synonym metric_map = "(json \<times> string list) list"

text \<open>
  An f-string is kept as its pieces: the literal text of the source and the values it
  interpolates. \<open>Quoted v\<close> is the value \<open>v\<close> between apostrophes, as the source writes
  it; \<open>FmtKeys\<close> is the list of the keys of the map and \<open>FmtMap\<close> the whole map.
\<close>

datatype frag = Lit string | Quoted json | FmtKeys "json list" | FmtMap metric_map

text \<open>
  The exceptions. \<open>KeyError\<close>, \<open>TypeError\<close> and \<open>AttributeError\<close> are what Python raises
  by itself on a missing key, a value of the wrong kind and a missing method;
  \<open>ValueError\<close> is the one the source raises. \<open>ExternalError\<close> stands for whatever a
  collaborator (upgrader, structural validation, splitter) raises.
  \<open>ConfigValidationError\<close> is the exception the specification names; the source neither
  defines nor raises it, and it is here so that statements can tell it from the others.
\<close>

datatype error =
    KeyError json
  | TypeError
  | AttributeError
  | ValueError "frag list"
  | ConfigValidationError "frag list"
  | ExternalError string


subsection \<open>Constants of \<^verbatim>\<open>ludwig.constants\<close>\<close>

text \<open>
  Modelled from the spec: the module \<^verbatim>\<open>ludwig.constants\<close> is not among the sources. Its
  constants are the key names and values the specification uses for them.
\<close>

definition COMBINED :: string where "COMBINED = ''combined''"
definition LOSS :: string where "LOSS = ''loss''"
definition MODEL_ECD :: string where "MODEL_ECD = ''ecd''"
definition MODEL_TYPE :: string where "MODEL_TYPE = ''model_type''"
definition NAME :: string where "NAME = ''name''"
definition OUTPUT_FEATURES :: string where "OUTPUT_FEATURES = ''output_features''"
definition PREPROCESSING :: string where "PREPROCESSING = ''preprocessing''"
definition SPLIT :: string where "SPLIT = ''split''"
definition TRAINER :: string where "TRAINER = ''trainer''"

text \<open>\<^verbatim>\<open>TYPE\<close> is a reserved word of the logic: the constant is \<open>TYPE'\<close>.\<close>

definition TYPE' :: string where "TYPE' = ''type''"

subsection \<open>What Python does on values\<close>

text \<open>\<^verbatim>\<open>d[k]\<close> on a dictionary: a missing key raises \<open>KeyError\<close>.\<close>

definition getitem :: "dict \<Rightarrow> string \<Rightarrow> error + json" where
  "getitem d k = (case map_of d k of None \<Rightarrow> Inl (KeyError (JStr k)) | Some v \<Rightarrow> Inr v)"

text \<open>\<^verbatim>\<open>v[k]\<close> with a string key on any value: only a dictionary can be subscripted so.\<close>

fun subscript :: "json \<Rightarrow> string \<Rightarrow> error + json" where
  "subscript (JDict d) k = getitem d k"
| "subscript JNone k = Inl TypeError"
| "subscript (JBool b) k = Inl TypeError"
| "subscript (JInt i) k = Inl TypeError"
| "subscript (JStr s) k = Inl TypeError"
| "subscript (JList xs) k = Inl TypeError"

text \<open>
  \<^verbatim>\<open>for x in v\<close>: a list gives its elements, a dictionary its keys, a string its
  characters; nothing else can be iterated.
\<close>

fun py_iter :: "json \<Rightarrow> error + json list" where
  "py_iter (JList xs) = Inr xs"
| "py_iter (JDict d) = Inr (map (\<lambda>kv. JStr (fst kv)) d)"
| "py_iter (JStr s) = Inr (map (\<lambda>c. JStr [c]) s)"
| "py_iter JNone = Inl TypeError"
| "py_iter (JBool b) = Inl TypeError"
| "py_iter (JInt i) = Inl TypeError"

text \<open>Lists and dictionaries cannot be dictionary keys.\<close>

fun hashable :: "json \<Rightarrow> bool" where
  "hashable (JList xs) = False"
| "hashable (JDict d) = False"
| "hashable JNone = True"
| "hashable (JBool b) = True"
| "hashable (JInt i) = True"
| "hashable (JStr s) = True"

text \<open>As dictionary keys, \<^verbatim>\<open>True\<close> is \<^verbatim>\<open>1\<close> and \<^verbatim>\<open>False\<close> is \<^verbatim>\<open>0\<close>.\<close>

fun py_key :: "json \<Rightarrow> json" where
  "py_key (JBool b) = JInt (if b then 1 else 0)"
| "py_key JNone = JNone"
| "py_key (JInt i) = JInt i"
| "py_key (JStr s) = JStr s"
| "py_key (JList xs) = JList xs"
| "py_key (JDict d) = JDict d"

text \<open>
  \<^verbatim>\<open>m[k] = v\<close> and the lookup of \<^verbatim>\<open>k\<close> in \<^verbatim>\<open>m\<close>, for hashable \<^verbatim>\<open>k\<close>: an existing key
  keeps its place (and the key object), a new key goes to the end.
\<close>

fun dict_setitem :: "metric_map \<Rightarrow> json \<Rightarrow> string list \<Rightarrow> metric_map" where
  "dict_setitem [] k v = [(k, v)]"
| "dict_setitem ((k', v') # m) k v =
     (if py_key k' = py_key k then (k', v) # m else (k', v') # dict_setitem m k v)"

fun dict_lookup :: "metric_map \<Rightarrow> json \<Rightarrow> string list option" where
  "dict_lookup [] k = None"
| "dict_lookup ((k', v') # m) k = (if py_key k' = py_key k then Some v' else dict_lookup m k)"

section \<open>The semantic checks (ludwig/config\_validation/validations.py)\<close>

subsection \<open>The fifteen checks with an empty body\<close>

text \<open>
  Each of them has a documentation string and then \<^verbatim>\<open>pass\<close> or nothing: it returns
  \<^verbatim>\<open>None\<close> on every configuration.
\<close>

definition check_feature_names_unique :: "dict \<Rightarrow> error + unit" where
  "check_feature_names_unique config = Inr ()"

definition check_tied_features_are_valid :: "dict \<Rightarrow> error + unit" where
  "check_tied_features_are_valid config = Inr ()"

definition check_dependent_features :: "dict \<Rightarrow> error + unit" where
  "check_dependent_features config = Inr ()"

definition check_training_runway :: "dict \<Rightarrow> error + unit" where
  "check_training_runway config = Inr ()"

definition check_gbm_horovod_incompatibility :: "dict \<Rightarrow> error + unit" where
  "check_gbm_horovod_incompatibility config = Inr ()"

definition check_gbm_feature_types :: "dict \<Rightarrow> error + unit" where
  "check_gbm_feature_types config = Inr ()"

definition check_ray_backend_in_memory_preprocessing :: "dict \<Rightarrow> error + unit" where
  "check_ray_backend_in_memory_preprocessing config = Inr ()"

definition check_sequence_concat_combiner_requirements :: "dict \<Rightarrow> error + unit" where
  "check_sequence_concat_combiner_requirements config = Inr ()"

definition check_tabtransformer_combiner_requirements :: "dict \<Rightarrow> error + unit" where
  "check_tabtransformer_combiner_requirements config = Inr ()"

definition check_comparator_combiner_requirements :: "dict \<Rightarrow> error + unit" where
  "check_comparator_combiner_requirements config = Inr ()"

definition check_class_balance_preprocessing :: "dict \<Rightarrow> error + unit" where
  "check_class_balance_preprocessing config = Inr ()"

definition check_sampling_exclusivity :: "dict \<Rightarrow> error + unit" where
  "check_sampling_exclusivity config = Inr ()"

definition check_hyperopt_search_space :: "dict \<Rightarrow> error + unit" where
  "check_hyperopt_search_space config = Inr ()"

definition check_hyperopt_metric_targets :: "dict \<Rightarrow> error + unit" where
  "check_hyperopt_metric_targets config = Inr ()"

definition check_gbm_single_output_feature :: "dict \<Rightarrow> error + unit" where
  "check_gbm_single_output_feature config = Inr ()"

subsection \<open>The map from feature names to metric names\<close>

text \<open>
  \<^verbatim>\<open>output_type_registry\<close> belongs to the feature metric registry, a collaborator: it is
  an argument, a partial map from a feature type to the list \<^verbatim>\<open>metric_functions\<close> of
  that type. A type that is no key of the registry raises \<open>KeyError\<close>.
\<close>

type_synonym registry = "string \<rightharpoonup> string list"

fun registry_getitem :: "registry \<Rightarrow> json \<Rightarrow> error + string list" where
  "registry_getitem reg (JStr t) =
     (case reg t of None \<Rightarrow> Inl (KeyError (JStr t)) | Some ms \<Rightarrow> Inr ms)"
| "registry_getitem reg (JList xs) = Inl TypeError"
| "registry_getitem reg (JDict d) = Inl TypeError"
| "registry_getitem reg JNone = Inl (KeyError JNone)"
| "registry_getitem reg (JBool b) = Inl (KeyError (JBool b))"
| "registry_getitem reg (JInt i) = Inl (KeyError (JInt i))"

text \<open>The loop of \<^verbatim>\<open>get_feature_to_metric_names_map\<close>, with \<^verbatim>\<open>metrics_names\<close> as accumulator.\<close>

fun metrics_names_loop :: "registry \<Rightarrow> json list \<Rightarrow> metric_map \<Rightarrow> error + metric_map" where
  "metrics_names_loop reg [] metrics_names = Inr metrics_names"
| "metrics_names_loop reg (output_feature # rest) metrics_names =
     (case subscript output_feature NAME of
        Inl e \<Rightarrow> Inl e
      | Inr output_feature_name \<Rightarrow>
          (case subscript output_feature TYPE' of
             Inl e \<Rightarrow> Inl e
           | Inr output_feature_type \<Rightarrow>
               (case registry_getitem reg output_feature_type of
                  Inl e \<Rightarrow> Inl e
                | Inr metric_functions \<Rightarrow>
                    if hashable output_feature_name
                    then metrics_names_loop reg rest
                           (dict_setitem metrics_names output_feature_name metric_functions)
                    else Inl TypeError)))"

definition get_feature_to_metric_names_map :: "registry \<Rightarrow> json \<Rightarrow> error + metric_map" where
  "get_feature_to_metric_names_map reg output_features =
     (case py_iter output_features of
        Inl e \<Rightarrow> Inl e
      | Inr features \<Rightarrow>
          (case metrics_names_loop reg features [] of
             Inl e \<Rightarrow> Inl e
           | Inr metrics_names \<Rightarrow> Inr (dict_setitem metrics_names (JStr COMBINED) [LOSS])))"

subsection \<open>\<^verbatim>\<open>check_validation_metrics_are_valid\<close>\<close>

definition invalid_field_message :: "json \<Rightarrow> metric_map \<Rightarrow> frag list" where
  "invalid_field_message validation_field feature_to_metric_names_map =
     [Lit ''The specified trainer.validation_field '', Quoted validation_field,
      Lit '' is not valid. '',
      Lit ''Available validation fields are: '',
      FmtKeys (map fst feature_to_metric_names_map)]"

definition invalid_metric_message :: "json \<Rightarrow> json \<Rightarrow> metric_map \<Rightarrow> frag list" where
  "invalid_metric_message validation_metric validation_field feature_to_metric_names_map =
     [Lit ''The specified trainer.validation_metric '', Quoted validation_metric,
      Lit '' is not valid for the'',
      Lit ''trainer.validation_field '', Quoted validation_field, Lit ''. '',
      Lit ''Available (validation_field, validation_metric) pairs are '',
      FmtMap feature_to_metric_names_map]"

definition check_validation_metrics_are_valid :: "registry \<Rightarrow> dict \<Rightarrow> error + unit" where
  "check_validation_metrics_are_valid reg config =
     (case getitem config OUTPUT_FEATURES of
        Inl e \<Rightarrow> Inl e
      | Inr output_features \<Rightarrow>
     (case get_feature_to_metric_names_map reg output_features of
        Inl e \<Rightarrow> Inl e
      | Inr feature_to_metric_names_map \<Rightarrow>
     (case getitem config TRAINER of
        Inl e \<Rightarrow> Inl e
      | Inr trainer \<Rightarrow>
     (case subscript trainer ''validation_field'' of
        Inl e \<Rightarrow> Inl e
      | Inr validation_field \<Rightarrow>
     (case subscript trainer ''validation_metric'' of
        Inl e \<Rightarrow> Inl e
      | Inr validation_metric \<Rightarrow>
          if \<not> hashable validation_field then Inl TypeError
          else
            (case dict_lookup feature_to_metric_names_map validation_field of
               None \<Rightarrow>
                 Inl (ValueError (invalid_field_message validation_field
                                    feature_to_metric_names_map))
             | Some metric_names \<Rightarrow>
                 if validation_metric \<in> set (map JStr metric_names) then Inr ()
                 else Inl (ValueError (invalid_metric_message validation_metric
                                         validation_field feature_to_metric_names_map))))))))"

subsection \<open>\<^verbatim>\<open>validate_config\<close>\<close>

text \<open>
  The collaborators of \<^verbatim>\<open>validate_config\<close> are outside this repository: the upgrader,
  the structural validation (the call
  \<^verbatim>\<open>validate(instance=updated_config, schema=get_schema(model_type=model_type), cls=get_validator())\<close>,
  which depends on the model type and on the configuration), the splitter factory, the
  splitter's own validation and the feature metric registry. Each may raise.
\<close>

record 's collaborators =
  upgrade_config_dict_to_latest_version :: "dict \<Rightarrow> error + dict"
  validate :: "json \<Rightarrow> dict \<Rightarrow> error + unit"
  get_splitter :: "dict \<Rightarrow> error + 's"
  splitter_validate :: "'s \<Rightarrow> dict \<Rightarrow> error + unit"
  output_type_registry :: registry

text \<open>
  What a call of \<^verbatim>\<open>validate_config\<close> does is recorded as the list of the calls it makes,
  in order, beside its result: a call that raises is in the list, the calls after it are
  not.
\<close>

datatype event =
    Upgrade
  | LockAcquired
  | StructuralValidation json
  | LockReleased
  | GetSplitter
  | SplitterValidate
  | Check string

fun is_auxiliary :: "event \<Rightarrow> bool" where
  "is_auxiliary GetSplitter = True"
| "is_auxiliary SplitterValidate = True"
| "is_auxiliary (Check name) = True"
| "is_auxiliary Upgrade = False"
| "is_auxiliary LockAcquired = False"
| "is_auxiliary (StructuralValidation model_type) = False"
| "is_auxiliary LockReleased = False"

text \<open>
  Statements in sequence: each check is called on the configuration in turn, and the
  first exception leaves the sequence, since nothing catches it. \<open>following\<close> puts the
  calls made so far before the calls and the result of what comes next.
\<close>

fun following :: "event list \<Rightarrow> event list \<times> (error + unit) \<Rightarrow> event list \<times> (error + unit)" where
  "following calls (later_calls, result) = (calls @ later_calls, result)"

fun run_checks :: "(string \<times> (dict \<Rightarrow> error + unit)) list \<Rightarrow> dict \<Rightarrow> event list \<times> (error + unit)" where
  "run_checks [] config = ([], Inr ())"
| "run_checks ((name, check) # rest) config =
     (case check config of
        Inl e \<Rightarrow> ([Check name], Inl e)
      | Inr u \<Rightarrow> following [Check name] (run_checks rest config))"

text \<open>Lines 169 to 184 of the source, in their order.\<close>

definition semantic_checks :: "registry \<Rightarrow> (string \<times> (dict \<Rightarrow> error + unit)) list" where
  "semantic_checks reg =
     [(''check_validation_metrics_are_valid'', check_validation_metrics_are_valid reg),
      (''check_feature_names_unique'', check_feature_names_unique),
      (''check_tied_features_are_valid'', check_tied_features_are_valid),
      (''check_dependent_features'', check_dependent_features),
      (''check_training_runway'', check_training_runway),
      (''check_gbm_horovod_incompatibility'', check_gbm_horovod_incompatibility),
      (''check_gbm_feature_types'', check_gbm_feature_types),
      (''check_ray_backend_in_memory_preprocessing'', check_ray_backend_in_memory_preprocessing),
      (''check_sequence_concat_combiner_requirements'', check_sequence_concat_combiner_requirements),
      (''check_tabtransformer_combiner_requirements'', check_tabtransformer_combiner_requirements),
      (''check_comparator_combiner_requirements'', check_comparator_combiner_requirements),
      (''check_class_balance_preprocessing'', check_class_balance_preprocessing),
      (''check_sampling_exclusivity'', check_sampling_exclusivity),
      (''check_hyperopt_search_space'', check_hyperopt_search_space),
      (''check_hyperopt_metric_targets'', check_hyperopt_metric_targets),
      (''check_gbm_single_output_feature'', check_gbm_single_output_feature)]"

text \<open>\<^verbatim>\<open>d.get(k, {})\<close> on a dictionary.\<close>

definition get_or_empty :: "dict \<Rightarrow> string \<Rightarrow> json" where
  "get_or_empty d k = (case map_of d k of None \<Rightarrow> JDict [] | Some v \<Rightarrow> v)"

text \<open>
  The argument of \<^verbatim>\<open>get_splitter\<close>:
  \<^verbatim>\<open>**updated_config.get(PREPROCESSING, {}).get(SPLIT, {})\<close>. Only a dictionary has
  \<^verbatim>\<open>get\<close>, and only a mapping can follow \<^verbatim>\<open>**\<close>.
\<close>

definition split_options :: "dict \<Rightarrow> error + dict" where
  "split_options updated_config =
     (case get_or_empty updated_config PREPROCESSING of
        JDict preprocessing \<Rightarrow>
          (case get_or_empty preprocessing SPLIT of
             JDict split \<Rightarrow> Inr split
           | JNone \<Rightarrow> Inl TypeError
           | JBool b \<Rightarrow> Inl TypeError
           | JInt i \<Rightarrow> Inl TypeError
           | JStr s \<Rightarrow> Inl TypeError
           | JList xs \<Rightarrow> Inl TypeError)
      | JNone \<Rightarrow> Inl AttributeError
      | JBool b \<Rightarrow> Inl AttributeError
      | JInt i \<Rightarrow> Inl AttributeError
      | JStr s \<Rightarrow> Inl AttributeError
      | JList xs \<Rightarrow> Inl AttributeError)"

text \<open>The block under \<^verbatim>\<open>if include_auxiliary_validations\<close>.\<close>

definition auxiliary_validations :: "'s collaborators \<Rightarrow> dict \<Rightarrow> event list \<times> (error + unit)" where
  "auxiliary_validations E updated_config =
     (case split_options updated_config of
        Inl e \<Rightarrow> ([], Inl e)
      | Inr split \<Rightarrow>
          (case get_splitter E split of
             Inl e \<Rightarrow> ([GetSplitter], Inl e)
           | Inr splitter \<Rightarrow>
               (case splitter_validate E splitter updated_config of
                  Inl e \<Rightarrow> ([GetSplitter, SplitterValidate], Inl e)
                | Inr u \<Rightarrow>
                    following [GetSplitter, SplitterValidate]
                      (run_checks (semantic_checks (output_type_registry E)) updated_config))))"

text \<open>\<^verbatim>\<open>updated_config.get(MODEL_TYPE, MODEL_ECD)\<close>.\<close>

definition model_type_of :: "dict \<Rightarrow> json" where
  "model_type_of updated_config =
     (case map_of updated_config MODEL_TYPE of None \<Rightarrow> JStr MODEL_ECD | Some v \<Rightarrow> v)"

definition validate_config :: "'s collaborators \<Rightarrow> dict \<Rightarrow> bool \<Rightarrow> event list \<times> (error + unit)" where
  "validate_config E config include_auxiliary_validations =
     (case upgrade_config_dict_to_latest_version E config of
        Inl e \<Rightarrow> ([Upgrade], Inl e)
      | Inr updated_config \<Rightarrow>
          (case validate E (model_type_of updated_config) updated_config of
             Inl e \<Rightarrow>
               ([Upgrade, LockAcquired, StructuralValidation (model_type_of updated_config),
                 LockReleased], Inl e)
           | Inr u \<Rightarrow>
               if include_auxiliary_validations
               then following
                      [Upgrade, LockAcquired, StructuralValidation (model_type_of updated_config),
                       LockReleased]
                      (auxiliary_validations E updated_config)
               else ([Upgrade, LockAcquired, StructuralValidation (model_type_of updated_config),
                      LockReleased], Inr ())))"

section \<open>What the specification says, as definitions\<close>

text \<open>The name and the type a feature carries, when it is a dictionary that has them.\<close>

fun feature_name :: "json \<Rightarrow> json option" where
  "feature_name (JDict d) = map_of d NAME"
| "feature_name JNone = None"
| "feature_name (JBool b) = None"
| "feature_name (JInt i) = None"
| "feature_name (JStr s) = None"
| "feature_name (JList xs) = None"

fun feature_type :: "json \<Rightarrow> json option" where
  "feature_type (JDict d) = map_of d TYPE'"
| "feature_type JNone = None"
| "feature_type (JBool b) = None"
| "feature_type (JInt i) = None"
| "feature_type (JStr s) = None"
| "feature_type (JList xs) = None"

text \<open>The metric names registered for a feature's type (none when the type is unknown).\<close>

definition registered_metrics :: "registry \<Rightarrow> json \<Rightarrow> string list option" where
  "registered_metrics reg f =
     (case feature_type f of Some (JStr t) \<Rightarrow> reg t | _ \<Rightarrow> None)"

text \<open>An output feature that carries a name (a string) and a type (a registered one).\<close>

definition carries_name_and_type :: "registry \<Rightarrow> json \<Rightarrow> bool" where
  "carries_name_and_type reg f =
     ((case feature_name f of Some (JStr n) \<Rightarrow> True | _ \<Rightarrow> False)
      \<and> registered_metrics reg f \<noteq> None)"

text \<open>The output features that the value \<open>field\<close> names.\<close>

definition named_by :: "json \<Rightarrow> json list \<Rightarrow> json list" where
  "named_by field fs =
     filter (\<lambda>f. case feature_name f of Some n \<Rightarrow> py_key n = py_key field | None \<Rightarrow> False) fs"

text \<open>
  The metric names a validation field admits: the loss metric alone for the combined
  objective, and otherwise those registered for the type of the feature it names (the
  last one in the list, should several features bear the name).
\<close>

definition admitted_metrics :: "registry \<Rightarrow> json list \<Rightarrow> json \<Rightarrow> string list option" where
  "admitted_metrics reg fs field =
     (if py_key field = JStr COMBINED then Some [LOSS]
      else if named_by field fs = [] then None
      else registered_metrics reg (last (named_by field fs)))"

section \<open>Sample values\<close>

text \<open>A registry with two feature types, and collaborators that accept everything.\<close>

definition sample_registry :: registry where
  "sample_registry =
     map_of [(''binary'', [''loss'', ''accuracy'']),
             (''number'', [''loss'', ''mean_squared_error''])]"

definition accepting :: "unit collaborators" where
  "accepting =
     \<lparr> upgrade_config_dict_to_latest_version = (\<lambda>config. Inr config),
       validate = (\<lambda>model_type config. Inr ()),
       get_splitter = (\<lambda>split. Inr ()),
       splitter_validate = (\<lambda>splitter config. Inr ()),
       output_type_registry = sample_registry \<rparr>"

definition feature :: "string \<Rightarrow> string \<Rightarrow> json" where
  "feature n t = JDict [(''name'', JStr n), (''type'', JStr t)]"

definition sample_config :: "json list \<Rightarrow> (string \<times> json) list \<Rightarrow> dict" where
  "sample_config output_features trainer =
     [(''input_features'', JList [feature ''x'' ''number'']),
      (''output_features'', JList output_features),
      (''trainer'', JDict trainer)]"

subsection \<open>The validation-metrics invariant\<close>



subsection \<open>The shape of a configuration\<close>

text \<open>
  In the data model of the specification the output features are a list of feature
  descriptors and the trainer is a descriptor: where the key \<^verbatim>\<open>output_features\<close> is
  present its value is a list of dictionaries, whose names and types (where present) are
  scalars, and where the key \<^verbatim>\<open>trainer\<close> is present its value is a dictionary. Any key
  may be absent.
\<close>

definition well_shaped_feature :: "json \<Rightarrow> bool" where
  "well_shaped_feature f =
     (case f of
        JDict d \<Rightarrow>
          (case map_of d NAME of None \<Rightarrow> True | Some n \<Rightarrow> hashable n)
          \<and> (case map_of d TYPE' of None \<Rightarrow> True | Some t \<Rightarrow> hashable t)
      | _ \<Rightarrow> False)"

definition well_shaped :: "dict \<Rightarrow> bool" where
  "well_shaped config =
     ((case map_of config OUTPUT_FEATURES of
         None \<Rightarrow> True
       | Some (JList fs) \<Rightarrow> list_all well_shaped_feature fs
       | Some _ \<Rightarrow> False)
      \<and> (case map_of config TRAINER of
            None \<Rightarrow> True
          | Some (JDict trainer) \<Rightarrow> True
          | Some _ \<Rightarrow> False))"

text \<open>
  A configuration lacks a key the check reads: it has no trainer section, or its trainer
  section lacks \<^verbatim>\<open>validation_field\<close> or \<^verbatim>\<open>validation_metric\<close>, or one of its output
  features lacks \<^verbatim>\<open>name\<close> or \<^verbatim>\<open>type\<close>.
\<close>

definition lacks_name_or_type :: "json \<Rightarrow> bool" where
  "lacks_name_or_type f = (feature_name f = None \<or> feature_type f = None)"

definition lacks_required_key :: "dict \<Rightarrow> bool" where
  "lacks_required_key config =
     (map_of config TRAINER = None
      \<or> (case map_of config TRAINER of
            Some (JDict trainer) \<Rightarrow>
              map_of trainer ''validation_field'' = None
              \<or> map_of trainer ''validation_metric'' = None
          | _ \<Rightarrow> False)
      \<or> (case map_of config OUTPUT_FEATURES of
            Some (JList fs) \<Rightarrow> list_ex lacks_name_or_type fs
          | _ \<Rightarrow> False))"

subsection \<open>The order of the table of checks\<close>

text \<open>
  Modelled from the spec: the rows of the table of section 4.3, from top to bottom, each
  under the name of the function of the source that bears the row's invariant in its
  documentation string.
\<close>

definition table_order :: "string list" where
  "table_order =
     [''check_validation_metrics_are_valid'',
      ''check_feature_names_unique'',
      ''check_tied_features_are_valid'',
      ''check_dependent_features'',
      ''check_training_runway'',
      ''check_gbm_horovod_incompatibility'',
      ''check_gbm_feature_types'',
      ''check_ray_backend_in_memory_preprocessing'',
      ''check_sequence_concat_combiner_requirements'',
      ''check_tabtransformer_combiner_requirements'',
      ''check_comparator_combiner_requirements'',
      ''check_class_balance_preprocessing'',
      ''check_sampling_exclusivity'',
      ''check_hyperopt_search_space'',
      ''check_hyperopt_metric_targets'',
      ''check_gbm_single_output_feature'']"

text \<open>The calls of a run up to and including the structural validation.\<close>

definition structural_phase :: "json \<Rightarrow> event list" where
  "structural_phase model_type =
     [Upgrade, LockAcquired, StructuralValidation model_type, LockReleased]"

section \<open>Sample configurations\<close>

text \<open>A configuration with one input and one output feature and no trainer section.\<close>

definition config_without_trainer :: dict where
  "config_without_trainer =
     [(''input_features'', JList [feature ''x'' ''number'']),
      (''output_features'', JList [feature ''y'' ''binary''])]"

text \<open>A validation field that names nothing.\<close>

definition config_nonexistent_field :: dict where
  "config_nonexistent_field =
     sample_config [feature ''y'' ''binary'']
       [(''validation_field'', JStr ''nonexistent''), (''validation_metric'', JStr ''loss'')]"


text \<open>Output features that are a number and not a list, and no trainer section.\<close>

definition config_features_not_a_list :: dict where
  "config_features_not_a_list = [(''output_features'', JInt 5)]"

text \<open>A gradient-boosted model without a trainer section.\<close>

definition config_gbm :: dict where
  "config_gbm =
     [(''model_type'', JStr ''gbm''),
      (''input_features'', JList [feature ''x'' ''number'']),
      (''output_features'', JList [feature ''y'' ''binary''])]"

text \<open>An output feature named like the combined objective, and two that share a name.\<close>

definition overwritten_features :: "json list" where
  "overwritten_features =
     [feature ''combined'' ''binary'', feature ''y'' ''binary'', feature ''y'' ''number'']"

text \<open>Two output features of the same name.\<close>

definition config_duplicate_names :: dict where
  "config_duplicate_names =
     sample_config [feature ''y'' ''binary'', feature ''y'' ''binary'']
       [(''validation_field'', JStr ''y''), (''validation_metric'', JStr ''loss'')]"

text \<open>Both \<^verbatim>\<open>checkpoints_per_epoch\<close> and \<^verbatim>\<open>steps_per_checkpoint\<close> set.\<close>

definition config_both_runways :: dict where
  "config_both_runways =
     sample_config [feature ''y'' ''binary'']
       [(''validation_field'', JStr ''y''), (''validation_metric'', JStr ''loss''),
        (''checkpoints_per_epoch'', JInt 2), (''steps_per_checkpoint'', JInt 100)]"

section \<open>Local topology discovery (ludwig/distributed/ddp.py)\<close>

text \<open>
  \<^verbatim>\<open>local_rank_and_size\<close> reads the caller's global rank and host name from the
  transport, gathers the pairs of all workers into \<^verbatim>\<open>output\<close> and counts. The
  transport is outside this repository, so the three values it delivers (the rank, the
  host name and the gathered list) are the arguments of the model; the counting loop is
  the code's. Python integers are unbounded: \<open>int\<close>.
\<close>

fun count_workers :: "int \<Rightarrow> string \<Rightarrow> (int \<times> string) list \<Rightarrow> int \<times> int \<Rightarrow> int \<times> int" where
  "count_workers rank host [] (local_rank, local_size) = (local_rank, local_size)"
| "count_workers rank host ((other_rank, other_host) # output) (local_rank, local_size) =
     (if other_host = host
      then count_workers rank host output
             (if other_rank < rank then local_rank + 1 else local_rank, local_size + 1)
      else count_workers rank host output (local_rank, local_size))"

definition local_rank_and_size :: "int \<Rightarrow> string \<Rightarrow> (int \<times> string) list \<Rightarrow> int \<times> int" where
  "local_rank_and_size rank host output = count_workers rank host output (0, 0)"

text \<open>The counts the specification describes, written as list filters.\<close>

definition same_host :: "string \<Rightarrow> (int \<times> string) list \<Rightarrow> (int \<times> string) list" where
  "same_host host output = filter (\<lambda>w. snd w = host) output"

definition lower_on_host :: "int \<Rightarrow> string \<Rightarrow> (int \<times> string) list \<Rightarrow> (int \<times> string) list" where
  "lower_on_host rank host output = filter (\<lambda>w. snd w = host \<and> fst w < rank) output"

text \<open>The simulated group of the specification: host H1 has ranks 0, 2, 4 and H2 has 1, 3.\<close>

definition gathered_example :: "(int \<times> string) list" where
  "gathered_example = [(0, ''H1''), (1, ''H2''), (2, ''H1''), (3, ''H2''), (4, ''H1'')]"

subsection \<open>The loop computes the two counts\<close>

lemma count_workers_eq:
  "count_workers rank host output (lr, ls) =
     (lr + int (length (lower_on_host rank host output)),
      ls + int (length (same_host host output)))"
  by (induction "output" arbitrary: lr ls)
     (auto simp: lower_on_host_def same_host_def)

lemma local_rank_and_size_eq:
  "local_rank_and_size rank host output =
     (int (length (lower_on_host rank host output)), int (length (same_host host output)))"
  by (simp add: local_rank_and_size_def count_workers_eq)

lemma rank_image:
  fixes S :: "int set"
  assumes "finite S"
  shows "(\<lambda>x. card {y \<in> S. y < x}) ` S = {0..<card S}"
  using assms
proof (induction S rule: finite_linorder_max_induct)
  case empty
  show ?case by simp
next
  case (insert b A)
  have below: "\<And>x. x \<in> A \<Longrightarrow> x < b" using insert.hyps by simp
  have top: "{y \<in> insert b A. y < b} = A" using below by auto
  have rest: "\<And>x. x \<in> A \<Longrightarrow> {y \<in> insert b A. y < x} = {y \<in> A. y < x}"
    using below by force
  have notin: "b \<notin> A" using below by blast
  have "(\<lambda>x. card {y \<in> insert b A. y < x}) ` insert b A
          = insert (card A) ((\<lambda>x. card {y \<in> A. y < x}) ` A)"
  proof -
    have "(\<lambda>x. card {y \<in> insert b A. y < x}) ` A = (\<lambda>x. card {y \<in> A. y < x}) ` A"
      by (rule image_cong) (simp_all only: rest)
    then show ?thesis by (simp only: image_insert top)
  qed
  also have "\<dots> = insert (card A) {0..<card A}" using insert.IH by simp
  also have "\<dots> = {0..<card (insert b A)}"
    using notin insert.hyps(1) by (simp add: atLeast0_lessThan_Suc)
  finally show ?case .
qed

lemma ranks_distinct:
  "distinct (map fst ws) \<Longrightarrow> distinct (map fst (filter P ws))"
  by (simp add: distinct_map_filter)

lemma length_lower_card:
  assumes "distinct (map fst ws)"
  shows "length (lower_on_host r host ws) = card {y \<in> fst ` set (same_host host ws). y < r}"
proof -
  have d: "distinct (map fst (lower_on_host r host ws))"
    unfolding lower_on_host_def using assms by (rule ranks_distinct)
  have "fst ` set (lower_on_host r host ws) = {y \<in> fst ` set (same_host host ws). y < r}"
    by (auto simp: lower_on_host_def same_host_def image_iff)
  then have "card {y \<in> fst ` set (same_host host ws). y < r} = card (set (map fst (lower_on_host r host ws)))"
    by simp
  also have "\<dots> = length (lower_on_host r host ws)"
    using d by (simp add: distinct_card del: set_map)
  finally show ?thesis by simp
qed

lemma length_same_card:
  assumes "distinct (map fst ws)"
  shows "length (same_host host ws) = card (fst ` set (same_host host ws))"
proof -
  have "distinct (map fst (same_host host ws))"
    unfolding same_host_def using assms by (rule ranks_distinct)
  then have "card (set (map fst (same_host host ws))) = length (same_host host ws)"
    by (simp add: distinct_card del: set_map)
  then show ?thesis by simp
qed

text \<open>
  Claim C5. Whatever the gathered list is, \<^verbatim>\<open>local_rank_and_size\<close> returns as local
  size the number of entries that share the caller's host identifier, and as local rank
  the number of those whose global rank is strictly less than the caller's. For the group
  with ranks 0, 2, 4 on host H1 and ranks 1, 3 on host H2, the workers of H1 get local
  size 3 and local ranks 0, 1, 2, and the workers of H2 get local size 2 and local ranks
  0, 1.
\<close>

theorem local_rank_and_size_counts:
  "local_rank_and_size rank host output =
     (int (length (lower_on_host rank host output)), int (length (same_host host output)))
   \<and> local_rank_and_size 0 ''H1'' gathered_example = (0, 3)
   \<and> local_rank_and_size 2 ''H1'' gathered_example = (1, 3)
   \<and> local_rank_and_size 4 ''H1'' gathered_example = (2, 3)
   \<and> local_rank_and_size 1 ''H2'' gathered_example = (0, 2)
   \<and> local_rank_and_size 3 ''H2'' gathered_example = (1, 2)"
proof -
  have "local_rank_and_size 0 ''H1'' gathered_example = (0, 3)"
    and "local_rank_and_size 2 ''H1'' gathered_example = (1, 3)"
    and "local_rank_and_size 4 ''H1'' gathered_example = (2, 3)"
    and "local_rank_and_size 1 ''H2'' gathered_example = (0, 2)"
    and "local_rank_and_size 3 ''H2'' gathered_example = (1, 2)"
    by (simp_all add: local_rank_and_size_def gathered_example_def)
  then show ?thesis
    using local_rank_and_size_eq [of rank host "output"] by simp
qed

text \<open>
  Claim C6. When the global ranks of the gathered list are pairwise distinct and every
  worker counts over the same list, the local ranks that the workers of one host compute
  are exactly the numbers from 0 up to the local size of that host, each taken once: the
  ranking is dense, with no gap and no duplicate.
\<close>

theorem local_ranks_dense:
  assumes "distinct (map fst output)"
  shows "(\<lambda>w. fst (local_rank_and_size (fst w) (snd w) output)) ` set (same_host host output)
           = {0 ..< snd (local_rank_and_size rank host output)}
         \<and> inj_on (\<lambda>w. fst (local_rank_and_size (fst w) (snd w) output)) (set (same_host host output))"
proof -
  let ?S = "fst ` set (same_host host output)"
  let ?f = "\<lambda>w. fst (local_rank_and_size (fst w) (snd w) output)"
  have on_host: "\<And>w. w \<in> set (same_host host output) \<Longrightarrow> snd w = host"
    by (simp add: same_host_def)
  have f_eq: "\<And>w. w \<in> set (same_host host output) \<Longrightarrow> ?f w = int (card {y \<in> ?S. y < fst w})"
    using on_host by (simp add: local_rank_and_size_eq length_lower_card [OF assms])
  have "?f ` set (same_host host output) = (\<lambda>w. int (card {y \<in> ?S. y < fst w})) ` set (same_host host output)"
    by (rule image_cong) (simp_all add: f_eq)
  also have "\<dots> = int ` ((\<lambda>x. card {y \<in> ?S. y < x}) ` ?S)"
    by (simp add: image_image)
  also have "\<dots> = int ` {0..<card ?S}"
    by (simp add: rank_image)
  also have "\<dots> = {0 ..< int (card ?S)}"
    by (simp add: image_int_atLeastLessThan)
  also have "\<dots> = {0 ..< snd (local_rank_and_size rank host output)}"
    by (simp add: local_rank_and_size_eq length_same_card [OF assms])
  finally have img: "?f ` set (same_host host output) = {0 ..< snd (local_rank_and_size rank host output)}" .
  have "card (?f ` set (same_host host output)) = card (set (same_host host output))"
  proof -
    have "distinct (same_host host output)"
      using assms by (simp add: same_host_def distinct_map)
    then have "card (set (same_host host output)) = length (same_host host output)"
      by (rule distinct_card)
    moreover have "card (?f ` set (same_host host output)) = length (same_host host output)"
      by (simp only: img) (simp add: local_rank_and_size_eq)
    ultimately show ?thesis by simp
  qed
  then have "inj_on ?f (set (same_host host output))"
    by (simp add: eq_card_imp_inj_on)
  with img show ?thesis by simp
qed

theorem local_ranks_dense_witness:
  "distinct (map fst gathered_example) \<and>
   (\<lambda>w. fst (local_rank_and_size (fst w) (snd w) gathered_example)) ` set (same_host ''H1'' gathered_example)
     = {0 ..< snd (local_rank_and_size 0 ''H1'' gathered_example)} \<and>
   snd (local_rank_and_size 0 ''H1'' gathered_example) = 3"
proof -
  have d: "distinct (map fst gathered_example)" by (simp add: gathered_example_def)
  have s: "snd (local_rank_and_size 0 ''H1'' gathered_example) = 3"
    by (simp add: local_rank_and_size_def gathered_example_def)
  from local_ranks_dense [OF d, of "''H1''" 0] d s show ?thesis by simp
qed

section \<open>The validation-metrics check\<close>

subsection \<open>Unfolding sets\<close>

lemmas key_defs =
  COMBINED_def LOSS_def MODEL_ECD_def MODEL_TYPE_def NAME_def OUTPUT_FEATURES_def
  PREPROCESSING_def SPLIT_def TRAINER_def TYPE'_def

lemmas sample_defs = sample_registry_def sample_config_def feature_def

lemmas check_defs =
  check_validation_metrics_are_valid_def get_feature_to_metric_names_map_def getitem_def

subsection \<open>The map that the loop builds\<close>

lemma py_key_idem: "py_key (py_key k) = py_key k"
  by (cases k) simp_all

lemma dict_lookup_setitem:
  "dict_lookup (dict_setitem m k v) q = (if py_key k = py_key q then Some v else dict_lookup m q)"
  by (induction m) auto

lemma subscript_name: "subscript f NAME = Inr v \<longleftrightarrow> feature_name f = Some v"
  by (cases f) (auto simp: getitem_def split: option.splits)

lemma subscript_type: "subscript f TYPE' = Inr v \<longleftrightarrow> feature_type f = Some v"
  by (cases f) (auto simp: getitem_def split: option.splits)

lemma registry_getitem_Inr:
  "registry_getitem reg t = Inr ms \<longleftrightarrow> (\<exists>s. t = JStr s \<and> reg s = Some ms)"
  by (cases t) (auto split: option.splits)

lemma loop_step:
  assumes "feature_name f = Some n" and "hashable n" and "registered_metrics reg f = Some ms"
  shows "metrics_names_loop reg (f # fs) m = metrics_names_loop reg fs (dict_setitem m n ms)"
proof -
  from assms(3) obtain s where t: "feature_type f = Some (JStr s)" and r: "reg s = Some ms"
    by (auto simp: registered_metrics_def split: option.splits json.splits)
  have "subscript f NAME = Inr n" using assms(1) by (simp add: subscript_name)
  moreover have "subscript f TYPE' = Inr (JStr s)" using t by (simp add: subscript_type)
  ultimately show ?thesis using r assms(2) by simp
qed

lemma loop_Cons_Inr:
  assumes "metrics_names_loop reg (f # fs) m = Inr M"
  shows "\<exists>n ms. feature_name f = Some n \<and> hashable n \<and> registered_metrics reg f = Some ms
           \<and> metrics_names_loop reg fs (dict_setitem m n ms) = Inr M"
proof -
  from assms obtain n t ms where n: "subscript f NAME = Inr n" and t: "subscript f TYPE' = Inr t"
    and r: "registry_getitem reg t = Inr ms" and h: "hashable n"
    and l: "metrics_names_loop reg fs (dict_setitem m n ms) = Inr M"
    by (auto split: sum.splits if_splits)
  from r obtain s where "t = JStr s" "reg s = Some ms" by (auto simp: registry_getitem_Inr)
  with t have "registered_metrics reg f = Some ms"
    by (simp add: registered_metrics_def subscript_type)
  with n h l show ?thesis by (auto simp: subscript_name)
qed

lemma named_by_Cons:
  "named_by k (f # fs) =
     (if (case feature_name f of Some n \<Rightarrow> py_key n = py_key k | None \<Rightarrow> False)
      then f # named_by k fs else named_by k fs)"
  by (simp add: named_by_def)

lemma loop_lookup:
  "metrics_names_loop reg fs m = Inr M \<Longrightarrow>
     dict_lookup M k =
       (if named_by k fs = [] then dict_lookup m k
        else registered_metrics reg (last (named_by k fs)))"
proof (induction fs arbitrary: m)
  case Nil
  then show ?case by (simp add: named_by_def)
next
  case (Cons f fs)
  from loop_Cons_Inr [OF Cons.prems] obtain n ms where
    n: "feature_name f = Some n" and ms: "registered_metrics reg f = Some ms"
    and l: "metrics_names_loop reg fs (dict_setitem m n ms) = Inr M"
    by blast
  have ih: "dict_lookup M k =
       (if named_by k fs = [] then dict_lookup (dict_setitem m n ms) k
        else registered_metrics reg (last (named_by k fs)))"
    by (rule Cons.IH [OF l])
  show ?case
    using ih n ms by (simp add: named_by_Cons dict_lookup_setitem)
qed

lemma loop_returns:
  "list_all (carries_name_and_type reg) fs \<Longrightarrow> \<exists>M. metrics_names_loop reg fs m = Inr M"
proof (induction fs arbitrary: m)
  case Nil
  show ?case by simp
next
  case (Cons f fs)
  from Cons.prems obtain n ms where n: "feature_name f = Some (JStr n)"
    and ms: "registered_metrics reg f = Some ms"
    by (auto simp: carries_name_and_type_def split: option.splits json.splits)
  have "metrics_names_loop reg (f # fs) m = metrics_names_loop reg fs (dict_setitem m (JStr n) ms)"
    by (rule loop_step [OF n _ ms]) simp
  moreover from Cons.prems have "list_all (carries_name_and_type reg) fs" by simp
  ultimately show ?case using Cons.IH by simp
qed

lemma map_lookup:
  assumes "get_feature_to_metric_names_map reg (JList fs) = Inr M"
  shows "dict_lookup M k =
           (if py_key k = JStr COMBINED then Some [LOSS]
            else if named_by k fs = [] then None
            else registered_metrics reg (last (named_by k fs)))"
proof -
  from assms obtain M0 where l: "metrics_names_loop reg fs [] = Inr M0"
    and M: "M = dict_setitem M0 (JStr COMBINED) [LOSS]"
    by (auto simp: get_feature_to_metric_names_map_def split: sum.splits)
  show ?thesis
    unfolding M using loop_lookup [OF l, of k]
    by (auto simp: dict_lookup_setitem)
qed


lemma check_eq:
  assumes fs: "map_of config OUTPUT_FEATURES = Some (JList fs)"
    and M: "get_feature_to_metric_names_map reg (JList fs) = Inr M"
    and tr: "map_of config TRAINER = Some (JDict trainer)"
    and vf: "map_of trainer ''validation_field'' = Some validation_field"
    and vm: "map_of trainer ''validation_metric'' = Some validation_metric"
    and h: "hashable validation_field"
  shows "check_validation_metrics_are_valid reg config =
           (case dict_lookup M validation_field of
              None \<Rightarrow> Inl (ValueError (invalid_field_message validation_field M))
            | Some ms \<Rightarrow>
                if validation_metric \<in> set (map JStr ms) then Inr ()
                else Inl (ValueError (invalid_metric_message validation_metric validation_field M)))"
  using assms by (simp add: check_validation_metrics_are_valid_def getitem_def)

lemma admitted_eq_lookup:
  assumes "get_feature_to_metric_names_map reg (JList fs) = Inr M"
  shows "dict_lookup M k = admitted_metrics reg fs k"
  using map_lookup [OF assms, of k] by (simp add: admitted_metrics_def)


lemma map_returns:
  assumes "list_all (carries_name_and_type reg) fs"
  shows "\<exists>M. get_feature_to_metric_names_map reg (JList fs) = Inr M"
  using loop_returns [OF assms, of "[]"] by (auto simp: get_feature_to_metric_names_map_def)

lemma check_admitted:
  assumes "map_of config OUTPUT_FEATURES = Some (JList fs)"
    and "get_feature_to_metric_names_map reg (JList fs) = Inr M"
    and "map_of config TRAINER = Some (JDict trainer)"
    and "map_of trainer ''validation_field'' = Some validation_field"
    and "map_of trainer ''validation_metric'' = Some validation_metric"
    and "hashable validation_field"
  shows "check_validation_metrics_are_valid reg config =
           (case admitted_metrics reg fs validation_field of
              None \<Rightarrow> Inl (ValueError (invalid_field_message validation_field M))
            | Some ms \<Rightarrow>
                if validation_metric \<in> JStr ` set ms then Inr ()
                else Inl (ValueError (invalid_metric_message validation_metric validation_field M)))"
  using check_eq [OF assms] admitted_eq_lookup [OF assms(2), of validation_field]
  by (simp split: option.splits)

subsection \<open>The result of the check on a configuration that has the keys\<close>










subsection \<open>Missing keys\<close>

lemma registry_getitem_hashable:
  "hashable t \<Longrightarrow>
     (\<exists>k. registry_getitem reg t = Inl (KeyError k)) \<or> (\<exists>ms. registry_getitem reg t = Inr ms)"
  by (cases t) (auto split: option.splits)

lemma loop_head_cases:
  assumes "well_shaped_feature f"
  shows "(\<exists>k. metrics_names_loop reg (f # fs) m = Inl (KeyError k))
         \<or> (\<not> lacks_name_or_type f
            \<and> (\<exists>n ms. metrics_names_loop reg (f # fs) m = metrics_names_loop reg fs (dict_setitem m n ms)))"
proof -
  from assms obtain d where f: "f = JDict d"
    by (auto simp: well_shaped_feature_def split: json.splits)
  show ?thesis
  proof (cases "map_of d NAME")
    case None
    then show ?thesis using f by (simp add: getitem_def)
  next
    case n: (Some n)
    with assms f have hn: "hashable n" by (simp add: well_shaped_feature_def)
    show ?thesis
    proof (cases "map_of d TYPE'")
      case None
      then show ?thesis using f n by (simp add: getitem_def)
    next
      case t: (Some t)
      with assms f have "hashable t" by (simp add: well_shaped_feature_def)
      from registry_getitem_hashable [OF this, of reg] show ?thesis
      proof
        assume "\<exists>k. registry_getitem reg t = Inl (KeyError k)"
        then show ?thesis using f n t by (auto simp: getitem_def)
      next
        assume "\<exists>ms. registry_getitem reg t = Inr ms"
        then obtain ms where "registry_getitem reg t = Inr ms" ..
        then have "metrics_names_loop reg (f # fs) m = metrics_names_loop reg fs (dict_setitem m n ms)"
          using f n t hn by (simp add: getitem_def)
        moreover have "\<not> lacks_name_or_type f"
          using f n t by (simp add: lacks_name_or_type_def)
        ultimately show ?thesis by blast
      qed
    qed
  qed
qed

lemma loop_key_or_ok:
  "list_all well_shaped_feature fs \<Longrightarrow>
     (\<exists>k. metrics_names_loop reg fs m = Inl (KeyError k)) \<or> (\<exists>M. metrics_names_loop reg fs m = Inr M)"
proof (induction fs arbitrary: m)
  case Nil
  show ?case by simp
next
  case (Cons f fs)
  then have f: "well_shaped_feature f" and fs: "list_all well_shaped_feature fs" by simp_all
  from loop_head_cases [OF f, of reg fs m] Cons.IH [OF fs] show ?case by metis
qed

lemma loop_lacking:
  "list_all well_shaped_feature fs \<Longrightarrow> list_ex lacks_name_or_type fs \<Longrightarrow>
     \<exists>k. metrics_names_loop reg fs m = Inl (KeyError k)"
proof (induction fs arbitrary: m)
  case Nil
  then show ?case by simp
next
  case (Cons f fs)
  then have f: "well_shaped_feature f" and fs: "list_all well_shaped_feature fs" by simp_all
  from loop_head_cases [OF f, of reg fs m] show ?case
  proof
    assume "\<exists>k. metrics_names_loop reg (f # fs) m = Inl (KeyError k)"
    then show ?thesis .
  next
    assume a: "\<not> lacks_name_or_type f
            \<and> (\<exists>n ms. metrics_names_loop reg (f # fs) m = metrics_names_loop reg fs (dict_setitem m n ms))"
    with Cons.prems(2) have "list_ex lacks_name_or_type fs" by simp
    from Cons.IH [OF fs this] a show ?thesis by metis
  qed
qed

text \<open>
  Claim C9, as amended. The check is not total: on every configuration of the shape of
  the data model (the output features, where present, are a list of dictionaries whose
  names and types, where present, are scalars, and the trainer, where present, is a
  dictionary) that lacks the key \<^verbatim>\<open>trainer\<close>, or whose trainer section lacks
  \<^verbatim>\<open>validation_field\<close> or \<^verbatim>\<open>validation_metric\<close>, or that has an output feature lacking
  \<^verbatim>\<open>name\<close> or \<^verbatim>\<open>type\<close>, \<^verbatim>\<open>check_validation_metrics_are_valid\<close> fails with a
  \<open>KeyError\<close>, the error of a key lookup, and not with the \<open>ValueError\<close> that describes
  an invalid field or metric.
\<close>

theorem missing_keys_raise_KeyError:
  assumes "well_shaped config" and "lacks_required_key config"
  shows "\<exists>k. check_validation_metrics_are_valid reg config = Inl (KeyError k)"
proof (cases "map_of config OUTPUT_FEATURES")
  case None
  then show ?thesis by (simp add: check_validation_metrics_are_valid_def getitem_def)
next
  case (Some ofs)
  with assms(1) obtain fs where ofs: "ofs = JList fs" and ws: "list_all well_shaped_feature fs"
    by (auto simp: well_shaped_def split: json.splits)
  from loop_key_or_ok [OF ws, of reg "[]"] show ?thesis
  proof
    assume "\<exists>k. metrics_names_loop reg fs [] = Inl (KeyError k)"
    then show ?thesis using Some ofs
      by (auto simp: check_defs)
  next
    assume "\<exists>M. metrics_names_loop reg fs [] = Inr M"
    then obtain M where M: "metrics_names_loop reg fs [] = Inr M" ..
    have nolack: "\<not> list_ex lacks_name_or_type fs"
      using loop_lacking [OF ws, of reg "[]"] M by auto
    show ?thesis
    proof (cases "map_of config TRAINER")
      case None
      then show ?thesis using Some ofs M by (simp add: check_defs)
    next
      case tr: (Some t)
      with assms(1) obtain trainer where t: "t = JDict trainer"
        by (auto simp: well_shaped_def split: json.splits)
      from assms(2) tr t Some ofs nolack
      have "map_of trainer ''validation_field'' = None \<or> map_of trainer ''validation_metric'' = None"
        by (simp add: lacks_required_key_def)
      then show ?thesis using Some ofs M tr t
        by (auto simp: check_defs split: option.splits)
    qed
  qed
qed

theorem missing_keys_raise_KeyError_witness:
  "well_shaped config_without_trainer \<and> lacks_required_key config_without_trainer \<and>
   (\<exists>k. check_validation_metrics_are_valid sample_registry config_without_trainer
          = Inl (KeyError k))"
proof -
  have w: "well_shaped config_without_trainer"
    by (simp add: well_shaped_def well_shaped_feature_def config_without_trainer_def
          sample_defs key_defs)
  have l: "lacks_required_key config_without_trainer"
    by (simp add: lacks_required_key_def config_without_trainer_def key_defs)
  from missing_keys_raise_KeyError [OF w l, of sample_registry] w l show ?thesis by simp
qed

text \<open>The key that the error names, in each of the four cases.\<close>

lemma missing_key_examples:
  "check_validation_metrics_are_valid sample_registry
     (sample_config [feature ''y'' ''binary''] [(''validation_metric'', JStr ''loss'')])
     = Inl (KeyError (JStr ''validation_field''))"
  "check_validation_metrics_are_valid sample_registry
     (sample_config [feature ''y'' ''binary''] [(''validation_field'', JStr ''y'')])
     = Inl (KeyError (JStr ''validation_metric''))"
  "check_validation_metrics_are_valid sample_registry
     (sample_config [JDict [(''type'', JStr ''binary'')]]
        [(''validation_field'', JStr ''y''), (''validation_metric'', JStr ''loss'')])
     = Inl (KeyError (JStr ''name''))"
  "check_validation_metrics_are_valid sample_registry
     (sample_config [JDict [(''name'', JStr ''y'')]]
        [(''validation_field'', JStr ''y''), (''validation_metric'', JStr ''loss'')])
     = Inl (KeyError (JStr ''type''))"
  by (simp_all add: check_defs sample_defs key_defs)

text \<open>
  The claim as it is written speaks of arbitrary mappings. The mapping whose only key is
  \<^verbatim>\<open>output_features\<close>, with the number 5 as value, lacks the key \<^verbatim>\<open>trainer\<close>; the check
  fails on it before it reads the trainer, where the loop iterates over the number, and
  the error is a \<open>TypeError\<close>, not the error of a key lookup.
\<close>

theorem features_not_a_list_counterexample:
  "lacks_required_key config_features_not_a_list
   \<and> map_of config_features_not_a_list ''trainer'' = None
   \<and> check_validation_metrics_are_valid sample_registry config_features_not_a_list
       = Inl TypeError"
  by (simp add: lacks_required_key_def config_features_not_a_list_def check_defs key_defs)

subsection \<open>The entry of the combined objective\<close>

lemma check_combined:
  assumes M: "get_feature_to_metric_names_map reg (JList fs) = Inr M"
    and "map_of config OUTPUT_FEATURES = Some (JList fs)"
    and "map_of config TRAINER = Some (JDict trainer)"
    and "map_of trainer ''validation_field'' = Some (JStr COMBINED)"
    and "map_of trainer ''validation_metric'' = Some validation_metric"
  shows "check_validation_metrics_are_valid reg config = Inr () \<longleftrightarrow> validation_metric = JStr LOSS"
proof -
  have "hashable (JStr COMBINED)" by simp
  from check_admitted [OF assms(2) M assms(3) assms(4) assms(5) this]
  show ?thesis by (simp add: admitted_metrics_def)
qed

text \<open>
  Claim C10. \<^verbatim>\<open>get_feature_to_metric_names_map\<close> returns on every list of output
  features that carry a name and a registered type, and whenever it returns, the key
  \<^verbatim>\<open>combined\<close> maps to the one-element list of the loss metric, whatever the features
  are; so for an output feature that is itself named \<^verbatim>\<open>combined\<close> the registered metric
  names are overwritten, and the check accepts the loss metric and nothing else when the
  validation field is \<^verbatim>\<open>combined\<close>. Every other key maps to the metric names of the last
  feature that bears it: among features of the same name only the last one's list
  survives.
\<close>

theorem combined_entry_is_loss:
  "(list_all (carries_name_and_type reg) fs \<longrightarrow>
      (\<exists>M. get_feature_to_metric_names_map reg (JList fs) = Inr M))
   \<and> (\<forall>M. get_feature_to_metric_names_map reg (JList fs) = Inr M \<longrightarrow>
         dict_lookup M (JStr COMBINED) = Some [LOSS]
         \<and> (\<forall>k. py_key k \<noteq> JStr COMBINED \<longrightarrow>
               dict_lookup M k =
                 (if named_by k fs = [] then None
                  else registered_metrics reg (last (named_by k fs))))
         \<and> (\<forall>config trainer validation_metric.
               map_of config OUTPUT_FEATURES = Some (JList fs) \<longrightarrow>
               map_of config TRAINER = Some (JDict trainer) \<longrightarrow>
               map_of trainer ''validation_field'' = Some (JStr COMBINED) \<longrightarrow>
               map_of trainer ''validation_metric'' = Some validation_metric \<longrightarrow>
               (check_validation_metrics_are_valid reg config = Inr ()
                  \<longleftrightarrow> validation_metric = JStr LOSS)))"
proof (intro conjI allI impI)
  assume "list_all (carries_name_and_type reg) fs"
  then show "\<exists>M. get_feature_to_metric_names_map reg (JList fs) = Inr M" by (rule map_returns)
next
  fix M assume "get_feature_to_metric_names_map reg (JList fs) = Inr M"
  from map_lookup [OF this, of "JStr COMBINED"]
  show "dict_lookup M (JStr COMBINED) = Some [LOSS]" by simp
next
  fix M k assume "get_feature_to_metric_names_map reg (JList fs) = Inr M"
    and "py_key k \<noteq> JStr COMBINED"
  with map_lookup [of reg fs M k]
  show "dict_lookup M k =
          (if named_by k fs = [] then None else registered_metrics reg (last (named_by k fs)))"
    by simp
next
  fix M config trainer validation_metric
  assume "get_feature_to_metric_names_map reg (JList fs) = Inr M"
    and "map_of config OUTPUT_FEATURES = Some (JList fs)"
    and "map_of config TRAINER = Some (JDict trainer)"
    and "map_of trainer ''validation_field'' = Some (JStr COMBINED)"
    and "map_of trainer ''validation_metric'' = Some validation_metric"
  then show "check_validation_metrics_are_valid reg config = Inr ()
               \<longleftrightarrow> validation_metric = JStr LOSS"
    by (rule check_combined)
qed

lemma overwritten_map:
  "get_feature_to_metric_names_map sample_registry (JList overwritten_features)
     = Inr [(JStr ''combined'', [''loss'']), (JStr ''y'', [''loss'', ''mean_squared_error''])]"
  by (simp add: overwritten_features_def get_feature_to_metric_names_map_def getitem_def
        sample_defs key_defs)

theorem combined_entry_is_loss_witness:
  "get_feature_to_metric_names_map sample_registry (JList overwritten_features)
     = Inr [(JStr ''combined'', [''loss'']), (JStr ''y'', [''loss'', ''mean_squared_error''])]
   \<and> dict_lookup [(JStr ''combined'', [''loss'']), (JStr ''y'', [''loss'', ''mean_squared_error''])]
        (JStr ''y'') = Some [''loss'', ''mean_squared_error'']
   \<and> check_validation_metrics_are_valid sample_registry
        (sample_config overwritten_features
           [(''validation_field'', JStr ''combined''), (''validation_metric'', JStr ''accuracy'')])
        \<noteq> Inr ()"
proof -
  let ?M = "[(JStr ''combined'', [''loss'']), (JStr ''y'', [''loss'', ''mean_squared_error''])]"
  let ?tr = "[(''validation_field'', JStr ''combined''), (''validation_metric'', JStr ''accuracy'')]"
  let ?c = "sample_config overwritten_features ?tr"
  note t = combined_entry_is_loss [of sample_registry overwritten_features]
  have 1: "map_of ?c OUTPUT_FEATURES = Some (JList overwritten_features)"
    by (simp add: sample_config_def key_defs)
  have 2: "map_of ?c TRAINER = Some (JDict ?tr)"
    by (simp add: sample_config_def key_defs)
  have 3: "map_of ?tr ''validation_field'' = Some (JStr COMBINED)" by (simp add: key_defs)
  have 4: "map_of ?tr ''validation_metric'' = Some (JStr ''accuracy'')" by simp
  from t overwritten_map 1 2 3 4
  have "check_validation_metrics_are_valid sample_registry ?c = Inr ()
          \<longleftrightarrow> JStr ''accuracy'' = JStr LOSS"
    by blast
  then have "check_validation_metrics_are_valid sample_registry ?c \<noteq> Inr ()"
    by (simp add: key_defs)
  moreover have "dict_lookup ?M (JStr ''y'') = Some [''loss'', ''mean_squared_error'']" by simp
  ultimately show ?thesis using overwritten_map by simp
qed

section \<open>The pipeline\<close>

subsection \<open>Running the checks in sequence\<close>

lemmas stub_defs =
  check_feature_names_unique_def check_tied_features_are_valid_def
  check_dependent_features_def check_training_runway_def
  check_gbm_horovod_incompatibility_def check_gbm_feature_types_def
  check_ray_backend_in_memory_preprocessing_def
  check_sequence_concat_combiner_requirements_def
  check_tabtransformer_combiner_requirements_def
  check_comparator_combiner_requirements_def check_class_balance_preprocessing_def
  check_sampling_exclusivity_def check_hyperopt_search_space_def
  check_hyperopt_metric_targets_def check_gbm_single_output_feature_def

lemma run_checks_all_pass:
  "list_all (\<lambda>c. snd c config = Inr ()) cs \<Longrightarrow>
     run_checks cs config = (map (\<lambda>c. Check (fst c)) cs, Inr ())"
  by (induction cs) auto

lemma run_checks_first_failure:
  "list_all (\<lambda>c. snd c config = Inr ()) before \<Longrightarrow> check config = Inl e \<Longrightarrow>
     run_checks (before @ (name, check) # after) config
       = (map (\<lambda>c. Check (fst c)) before @ [Check name], Inl e)"
  by (induction before) auto

lemma semantic_checks_names: "map fst (semantic_checks reg) = table_order"
  by (simp add: semantic_checks_def table_order_def)

lemma semantic_checks_run:
  "run_checks (semantic_checks reg) config =
     (case check_validation_metrics_are_valid reg config of
        Inl e \<Rightarrow> ([Check ''check_validation_metrics_are_valid''], Inl e)
      | Inr u \<Rightarrow> (map Check table_order, Inr ()))"
proof (cases "check_validation_metrics_are_valid reg config")
  case (Inl e)
  then show ?thesis by (simp add: semantic_checks_def)
next
  case (Inr u)
  then show ?thesis by (simp add: semantic_checks_def table_order_def stub_defs)
qed

subsection \<open>Without the auxiliary validations\<close>

lemma validate_config_aux_False:
  "validate_config E config False =
     (case upgrade_config_dict_to_latest_version E config of
        Inl e \<Rightarrow> ([Upgrade], Inl e)
      | Inr updated_config \<Rightarrow>
          (case map_of updated_config ''model_type'' of
             None \<Rightarrow>
               ([Upgrade, LockAcquired, StructuralValidation (JStr ''ecd''), LockReleased],
                validate E (JStr ''ecd'') updated_config)
           | Some model_type \<Rightarrow>
               ([Upgrade, LockAcquired, StructuralValidation model_type, LockReleased],
                validate E model_type updated_config)))"
  by (auto simp: validate_config_def model_type_of_def MODEL_TYPE_def MODEL_ECD_def
           split: sum.splits option.splits)

text \<open>
  Claim C7. With \<^verbatim>\<open>include_auxiliary_validations=False\<close>, \<^verbatim>\<open>validate_config\<close> calls the
  upgrader and, when that returns, determines the model type from the upgraded
  configuration (the value of its key \<^verbatim>\<open>model_type\<close>, and \<^verbatim>\<open>ecd\<close> when the key is absent)
  and runs the structural validation for that model type under the lock; its result is
  the result of the structural validation. It builds and consults no splitter and calls
  no semantic check: none of these calls is among the calls it makes, and the result does
  not depend on the splitter factory, the splitter's validation or the metric registry.
\<close>

theorem validate_config_without_auxiliary:
  "validate_config E config False =
     (case upgrade_config_dict_to_latest_version E config of
        Inl e \<Rightarrow> ([Upgrade], Inl e)
      | Inr updated_config \<Rightarrow>
          (case map_of updated_config ''model_type'' of
             None \<Rightarrow>
               ([Upgrade, LockAcquired, StructuralValidation (JStr ''ecd''), LockReleased],
                validate E (JStr ''ecd'') updated_config)
           | Some model_type \<Rightarrow>
               ([Upgrade, LockAcquired, StructuralValidation model_type, LockReleased],
                validate E model_type updated_config)))
   \<and> filter is_auxiliary (fst (validate_config E config False)) = []
   \<and> validate_config
        (E\<lparr>get_splitter := g, splitter_validate := v, output_type_registry := r\<rparr>)
        config False
      = validate_config E config False"
proof (intro conjI)
  show "validate_config E config False =
     (case upgrade_config_dict_to_latest_version E config of
        Inl e \<Rightarrow> ([Upgrade], Inl e)
      | Inr updated_config \<Rightarrow>
          (case map_of updated_config ''model_type'' of
             None \<Rightarrow>
               ([Upgrade, LockAcquired, StructuralValidation (JStr ''ecd''), LockReleased],
                validate E (JStr ''ecd'') updated_config)
           | Some model_type \<Rightarrow>
               ([Upgrade, LockAcquired, StructuralValidation model_type, LockReleased],
                validate E model_type updated_config)))"
    by (rule validate_config_aux_False)
  show "filter is_auxiliary (fst (validate_config E config False)) = []"
    by (simp add: validate_config_aux_False split: sum.splits option.splits)
  show "validate_config
        (E\<lparr>get_splitter := g, splitter_validate := v, output_type_registry := r\<rparr>)
        config False
      = validate_config E config False"
    by (simp add: validate_config_aux_False split: sum.splits option.splits)
qed

text \<open>
  Two runs with collaborators that accept everything: a configuration without the key
  \<^verbatim>\<open>model_type\<close> is validated as \<^verbatim>\<open>ecd\<close>, and one with \<^verbatim>\<open>model_type = gbm\<close> as
  \<^verbatim>\<open>gbm\<close>. Neither has a trainer section, which the first semantic check would reject.
\<close>

theorem validate_config_without_auxiliary_witness:
  "validate_config accepting config_without_trainer False
       = ([Upgrade, LockAcquired, StructuralValidation (JStr ''ecd''), LockReleased], Inr ())
   \<and> validate_config accepting config_gbm False
       = ([Upgrade, LockAcquired, StructuralValidation (JStr ''gbm''), LockReleased], Inr ())"
proof -
  from validate_config_without_auxiliary [of accepting config_without_trainer]
  have 1: "validate_config accepting config_without_trainer False
       = ([Upgrade, LockAcquired, StructuralValidation (JStr ''ecd''), LockReleased], Inr ())"
    by (simp add: accepting_def config_without_trainer_def)
  from validate_config_without_auxiliary [of accepting config_gbm]
  have 2: "validate_config accepting config_gbm False
       = ([Upgrade, LockAcquired, StructuralValidation (JStr ''gbm''), LockReleased], Inr ())"
    by (simp add: accepting_def config_gbm_def)
  from 1 2 show ?thesis by simp
qed

subsection \<open>With the auxiliary validations\<close>

lemma validate_config_auxiliary:
  assumes "upgrade_config_dict_to_latest_version E config = Inr updated_config"
    and "validate E (model_type_of updated_config) updated_config = Inr ()"
    and "split_options updated_config = Inr split"
    and "get_splitter E split = Inr splitter"
    and "splitter_validate E splitter updated_config = Inr ()"
  shows "validate_config E config True =
           following (structural_phase (model_type_of updated_config)
                        @ [GetSplitter, SplitterValidate])
             (run_checks (semantic_checks (output_type_registry E)) updated_config)"
proof -
  obtain calls result
    where r: "run_checks (semantic_checks (output_type_registry E)) updated_config
                = (calls, result)"
    by (cases "run_checks (semantic_checks (output_type_registry E)) updated_config")
  show ?thesis
    using assms
    by (simp add: validate_config_def auxiliary_validations_def structural_phase_def r)
qed

lemma accepting_facts:
  "upgrade_config_dict_to_latest_version accepting config = Inr config"
  "validate accepting model_type config = Inr ()"
  "get_splitter accepting split = Inr ()"
  "splitter_validate accepting splitter config = Inr ()"
  "output_type_registry accepting = sample_registry"
  by (simp_all add: accepting_def)

lemma sample_config_facts:
  "split_options (sample_config output_features trainer) = Inr []"
  "model_type_of (sample_config output_features trainer) = JStr ''ecd''"
  by (simp_all add: split_options_def get_or_empty_def model_type_of_def
        sample_config_def key_defs)

lemma validate_config_accepting:
  "validate_config accepting (sample_config output_features trainer) True =
     following (structural_phase (JStr ''ecd'') @ [GetSplitter, SplitterValidate])
       (run_checks (semantic_checks sample_registry) (sample_config output_features trainer))"
proof -
  let ?c = "sample_config output_features trainer"
  have "validate_config accepting ?c True =
          following (structural_phase (model_type_of ?c) @ [GetSplitter, SplitterValidate])
            (run_checks (semantic_checks (output_type_registry accepting)) ?c)"
    by (rule validate_config_auxiliary [where split = "[]" and splitter = "()"])
       (simp_all add: accepting_facts sample_config_facts)
  then show ?thesis by (simp add: accepting_facts(5) sample_config_facts(2))
qed

lemma check_nonexistent_field:
  "check_validation_metrics_are_valid sample_registry config_nonexistent_field
     = Inl (ValueError
              (invalid_field_message (JStr ''nonexistent'')
                 [(JStr ''y'', [''loss'', ''accuracy'']), (JStr ''combined'', [''loss''])]))"
  by (simp add: config_nonexistent_field_def check_defs sample_defs key_defs)

lemma check_duplicate_names:
  "check_validation_metrics_are_valid sample_registry config_duplicate_names = Inr ()"
  by (simp add: config_duplicate_names_def check_defs sample_defs key_defs)

lemma check_both_runways:
  "check_validation_metrics_are_valid sample_registry config_both_runways = Inr ()"
  by (simp add: config_both_runways_def check_defs sample_defs key_defs)

lemma semantic_checks_functions:
  "map snd (semantic_checks reg) =
     [check_validation_metrics_are_valid reg,
      check_feature_names_unique,
      check_tied_features_are_valid,
      check_dependent_features,
      check_training_runway,
      check_gbm_horovod_incompatibility,
      check_gbm_feature_types,
      check_ray_backend_in_memory_preprocessing,
      check_sequence_concat_combiner_requirements,
      check_tabtransformer_combiner_requirements,
      check_comparator_combiner_requirements,
      check_class_balance_preprocessing,
      check_sampling_exclusivity,
      check_hyperopt_search_space,
      check_hyperopt_metric_targets,
      check_gbm_single_output_feature]"
  by (simp add: semantic_checks_def)

text \<open>
  Claim C8. With the auxiliary validations enabled, and once the upgrade, the structural
  validation and the splitter have passed, what \<^verbatim>\<open>validate_config\<close> does next is the
  sequence of the semantic checks on the upgraded configuration:
  \<^verbatim>\<open>check_validation_metrics_are_valid\<close> first and the others after it, the functions and
  their names in the order of the table of section 4.3. Nothing catches an exception in
  such a sequence, whatever the checks in it are: when the checks before one have passed
  and that one raises, the sequence ends with that exception, and the calls made are
  those up to that check and none after it; when all pass, all have been called in
  order. So it is for the sixteen checks of the pipeline: the call ends with the
  exception of the first check that raises, with no later check called, and when all
  pass all sixteen have been called in the order of the table and the call returns.
\<close>

theorem semantic_checks_fail_fast:
  assumes "upgrade_config_dict_to_latest_version E config = Inr updated_config"
    and "validate E (model_type_of updated_config) updated_config = Inr ()"
    and "split_options updated_config = Inr split"
    and "get_splitter E split = Inr splitter"
    and "splitter_validate E splitter updated_config = Inr ()"
  shows "validate_config E config True =
           following (structural_phase (model_type_of updated_config)
                        @ [GetSplitter, SplitterValidate])
             (run_checks (semantic_checks (output_type_registry E)) updated_config)
       \<and> map fst (semantic_checks (output_type_registry E)) = table_order
       \<and> map snd (semantic_checks (output_type_registry E)) =
           [check_validation_metrics_are_valid (output_type_registry E),
            check_feature_names_unique,
            check_tied_features_are_valid,
            check_dependent_features,
            check_training_runway,
            check_gbm_horovod_incompatibility,
            check_gbm_feature_types,
            check_ray_backend_in_memory_preprocessing,
            check_sequence_concat_combiner_requirements,
            check_tabtransformer_combiner_requirements,
            check_comparator_combiner_requirements,
            check_class_balance_preprocessing,
            check_sampling_exclusivity,
            check_hyperopt_search_space,
            check_hyperopt_metric_targets,
            check_gbm_single_output_feature]
       \<and> (\<forall>before name check after e c.
             list_all (\<lambda>p. snd p c = Inr ()) before \<longrightarrow>
             check c = Inl e \<longrightarrow>
             run_checks (before @ (name, check) # after) c
               = (map (\<lambda>p. Check (fst p)) before @ [Check name], Inl e))
       \<and> (\<forall>checks c.
             list_all (\<lambda>p. snd p c = Inr ()) checks \<longrightarrow>
             run_checks checks c = (map (\<lambda>p. Check (fst p)) checks, Inr ()))
       \<and> (\<forall>before name check after e.
             semantic_checks (output_type_registry E) = before @ (name, check) # after \<longrightarrow>
             list_all (\<lambda>p. snd p updated_config = Inr ()) before \<longrightarrow>
             check updated_config = Inl e \<longrightarrow>
             validate_config E config True =
               (structural_phase (model_type_of updated_config)
                  @ [GetSplitter, SplitterValidate]
                  @ map (\<lambda>p. Check (fst p)) before @ [Check name],
                Inl e))
       \<and> (list_all (\<lambda>p. snd p updated_config = Inr ())
             (semantic_checks (output_type_registry E)) \<longrightarrow>
             validate_config E config True =
               (structural_phase (model_type_of updated_config)
                  @ [GetSplitter, SplitterValidate] @ map Check table_order,
                Inr ()))"
proof -
  note v = validate_config_auxiliary [OF assms]
  have names: "map fst (semantic_checks (output_type_registry E)) = table_order"
    by (rule semantic_checks_names)
  note funs = semantic_checks_functions [of "output_type_registry E"]
  have seq_fail: "run_checks (before @ (name, check) # after) c
               = (map (\<lambda>p. Check (fst p)) before @ [Check name], Inl e)"
    if "list_all (\<lambda>p. snd p c = Inr ()) before" and "check c = Inl e"
    for before name check after e c
    using run_checks_first_failure
            [where check = check and config = c and before = before
               and name = name and after = after, OF that(1) that(2)] .
  have seq_pass: "run_checks checks c = (map (\<lambda>p. Check (fst p)) checks, Inr ())"
    if "list_all (\<lambda>p. snd p c = Inr ()) checks" for checks c
    using that by (rule run_checks_all_pass)
  have fail: "validate_config E config True =
               (structural_phase (model_type_of updated_config)
                  @ [GetSplitter, SplitterValidate]
                  @ map (\<lambda>p. Check (fst p)) before @ [Check name],
                Inl e)"
    if "semantic_checks (output_type_registry E) = before @ (name, check) # after"
      and "list_all (\<lambda>p. snd p updated_config = Inr ()) before"
      and "check updated_config = Inl e"
    for before name check after e
    using v that(1)
      seq_fail [where check = check and c = updated_config and before = before
                  and name = name and after = after and e = e, OF that(2) that(3)]
    by simp
  have pass: "validate_config E config True =
               (structural_phase (model_type_of updated_config)
                  @ [GetSplitter, SplitterValidate] @ map Check table_order,
                Inr ())"
    if "list_all (\<lambda>p. snd p updated_config = Inr ()) (semantic_checks (output_type_registry E))"
  proof -
    have "map (\<lambda>p. Check (fst p)) (semantic_checks (output_type_registry E))
            = map Check (map fst (semantic_checks (output_type_registry E)))"
      by (simp add: comp_def)
    then show ?thesis
      using v seq_pass [OF that] names by simp
  qed
  show ?thesis
  proof (intro conjI allI impI)
    show "validate_config E config True =
           following (structural_phase (model_type_of updated_config)
                        @ [GetSplitter, SplitterValidate])
             (run_checks (semantic_checks (output_type_registry E)) updated_config)"
      by (rule v)
  qed (fact names funs | erule (1) seq_fail | erule seq_pass | erule (2) fail | erule pass)+
qed

text \<open>
  Three runs. A sequence of three checks of which the second raises: the third is not
  called. The pipeline on the configuration whose validation field names nothing: the
  first check raises and is the last call. The pipeline on a valid configuration: all
  sixteen checks are called.
\<close>

theorem semantic_checks_fail_fast_witness:
  "upgrade_config_dict_to_latest_version accepting config_nonexistent_field
     = Inr config_nonexistent_field
   \<and> split_options config_nonexistent_field = Inr []
   \<and> run_checks
        [(''first'', \<lambda>c. Inr ()), (''second'', \<lambda>c. Inl AttributeError),
         (''third'', \<lambda>c. Inl TypeError)] config_nonexistent_field
       = ([Check ''first'', Check ''second''], Inl AttributeError)
   \<and> validate_config accepting config_nonexistent_field True =
       ([Upgrade, LockAcquired, StructuralValidation (JStr ''ecd''), LockReleased,
         GetSplitter, SplitterValidate, Check ''check_validation_metrics_are_valid''],
        Inl (ValueError
               [Lit ''The specified trainer.validation_field '', Quoted (JStr ''nonexistent''),
                Lit '' is not valid. '',
                Lit ''Available validation fields are: '',
                FmtKeys [JStr ''y'', JStr ''combined'']]))"
proof -
  let ?c = "config_nonexistent_field"
  have 1: "upgrade_config_dict_to_latest_version accepting ?c = Inr ?c"
    by (rule accepting_facts(1))
  have 2: "validate accepting (model_type_of ?c) ?c = Inr ()"
    by (rule accepting_facts(2))
  have 3: "split_options ?c = Inr []"
    by (simp add: config_nonexistent_field_def sample_config_facts(1))
  have 4: "get_splitter accepting [] = Inr ()"
    by (rule accepting_facts(3))
  have 5: "splitter_validate accepting () ?c = Inr ()"
    by (rule accepting_facts(4))
  have mt: "model_type_of ?c = JStr ''ecd''"
    by (simp add: config_nonexistent_field_def sample_config_facts(2))
  note t = semantic_checks_fail_fast [OF 1 2 3 4 5]
  from t have general: "\<forall>before name check after e c.
             list_all (\<lambda>p. snd p c = Inr ()) before \<longrightarrow>
             check c = Inl e \<longrightarrow>
             run_checks (before @ (name, check) # after) c
               = (map (\<lambda>p. Check (fst p)) before @ [Check name], Inl e)"
    by blast
  have three: "run_checks
        ([(''first'', \<lambda>c. Inr ())] @ (''second'', \<lambda>c. Inl AttributeError)
           # [(''third'', \<lambda>c. Inl TypeError)]) ?c
       = (map (\<lambda>p. Check (fst p)) [(''first'', \<lambda>c. Inr ())] @ [Check ''second''],
          Inl AttributeError)"
    using general
            [rule_format,
             where before = "[(''first'', \<lambda>c. Inr ())]" and name = "''second''"
               and check = "\<lambda>c. Inl AttributeError" and e = AttributeError
               and after = "[(''third'', \<lambda>c. Inl TypeError)]"
               and c = config_nonexistent_field]
    by simp
  from t have "validate_config accepting ?c True =
           following (structural_phase (model_type_of ?c) @ [GetSplitter, SplitterValidate])
             (run_checks (semantic_checks (output_type_registry accepting)) ?c)"
    by blast
  then have "validate_config accepting ?c True =
       ([Upgrade, LockAcquired, StructuralValidation (JStr ''ecd''), LockReleased,
         GetSplitter, SplitterValidate, Check ''check_validation_metrics_are_valid''],
        Inl (ValueError
               [Lit ''The specified trainer.validation_field '', Quoted (JStr ''nonexistent''),
                Lit '' is not valid. '',
                Lit ''Available validation fields are: '',
                FmtKeys [JStr ''y'', JStr ''combined'']]))"
    by (simp add: mt accepting_facts(5) semantic_checks_run check_nonexistent_field
          structural_phase_def invalid_field_message_def)
  with 1 3 three show ?thesis by simp
qed

subsection \<open>Checks that do not check\<close>

text \<open>
  Claim C3. The specification asks that a configuration with two output features of the
  same name be rejected with a uniqueness violation. The body of
  \<^verbatim>\<open>check_feature_names_unique\<close> is \<^verbatim>\<open>pass\<close>, against its documentation string: it
  returns on every configuration, and on the configuration with two output features named
  \<^verbatim>\<open>y\<close> the pipeline calls all sixteen checks and returns without an error.
\<close>

theorem duplicate_names_not_rejected:
  "check_feature_names_unique config = Inr ()
   \<and> validate_config accepting config_duplicate_names True =
       (structural_phase (JStr ''ecd'') @ [GetSplitter, SplitterValidate]
          @ map Check table_order,
        Inr ())"
proof -
  have "validate_config accepting config_duplicate_names True =
       (structural_phase (JStr ''ecd'') @ [GetSplitter, SplitterValidate]
          @ map Check table_order,
        Inr ())"
    unfolding config_duplicate_names_def validate_config_accepting
    unfolding config_duplicate_names_def [symmetric]
    by (simp add: semantic_checks_run check_duplicate_names)
  then show ?thesis by (simp add: check_feature_names_unique_def)
qed

text \<open>
  Claim C4. The specification asks that a configuration in which both
  \<^verbatim>\<open>checkpoints_per_epoch\<close> and \<^verbatim>\<open>steps_per_checkpoint\<close> are set be rejected. The body
  of \<^verbatim>\<open>check_training_runway\<close> is \<^verbatim>\<open>pass\<close>, against its documentation string: it
  returns on every configuration, and on the configuration with
  \<^verbatim>\<open>checkpoints_per_epoch = 2\<close> and \<^verbatim>\<open>steps_per_checkpoint = 100\<close> the pipeline calls
  all sixteen checks and returns without an error.
\<close>

theorem both_runways_not_rejected:
  "check_training_runway config = Inr ()
   \<and> validate_config accepting config_both_runways True =
       (structural_phase (JStr ''ecd'') @ [GetSplitter, SplitterValidate]
          @ map Check table_order,
        Inr ())"
proof -
  have "validate_config accepting config_both_runways True =
       (structural_phase (JStr ''ecd'') @ [GetSplitter, SplitterValidate]
          @ map Check table_order,
        Inr ())"
    unfolding config_both_runways_def validate_config_accepting
    unfolding config_both_runways_def [symmetric]
    by (simp add: semantic_checks_run check_both_runways)
  then show ?thesis by (simp add: check_training_runway_def)
qed

end
